theory Spec2Isabelle
  imports Complex_Main
begin

section \<open>Numbers of the Go program\<close>

text \<open>
  The engine computes on Go \<^verbatim>\<open>float64\<close> values. A finite value is modelled by a real
  number and the arithmetic on finite values is exact: rounding and overflow to infinity
  are not part of the model, and neither is the sign of zero. What the model keeps is the
  result of a division whose divisor the source does not guard: IEEE 754 gives an
  infinity for \<open>x / 0\<close> with \<open>x \<noteq> 0\<close> and NaN for \<open>0 / 0\<close>, where HOL's division on the
  reals would silently give \<open>0\<close>. Such results have the type \<open>f64\<close>; every comparison
  with NaN is false, as in Go.
\<close>

datatype f64 = Fin real | PInf | NInf | NaN

fun fneg :: "f64 \<Rightarrow> f64" where
  "fneg (Fin a) = Fin (- a)"
| "fneg PInf = NInf"
| "fneg NInf = PInf"
| "fneg NaN = NaN"

fun fmul :: "f64 \<Rightarrow> f64 \<Rightarrow> f64" where
  "fmul NaN _ = NaN"
| "fmul _ NaN = NaN"
| "fmul (Fin a) (Fin b) = Fin (a * b)"
| "fmul (Fin a) PInf = (if a = 0 then NaN else if a > 0 then PInf else NInf)"
| "fmul (Fin a) NInf = (if a = 0 then NaN else if a > 0 then NInf else PInf)"
| "fmul PInf (Fin b) = (if b = 0 then NaN else if b > 0 then PInf else NInf)"
| "fmul NInf (Fin b) = (if b = 0 then NaN else if b > 0 then NInf else PInf)"
| "fmul PInf PInf = PInf"
| "fmul PInf NInf = NInf"
| "fmul NInf PInf = NInf"
| "fmul NInf NInf = PInf"

fun fdiv :: "f64 \<Rightarrow> f64 \<Rightarrow> f64" where
  "fdiv NaN _ = NaN"
| "fdiv _ NaN = NaN"
| "fdiv (Fin a) (Fin b) =
     (if b \<noteq> 0 then Fin (a / b)
      else if a > 0 then PInf else if a < 0 then NInf else NaN)"
| "fdiv (Fin a) PInf = Fin 0"
| "fdiv (Fin a) NInf = Fin 0"
| "fdiv PInf (Fin b) = (if b \<ge> 0 then PInf else NInf)"
| "fdiv NInf (Fin b) = (if b \<ge> 0 then NInf else PInf)"
| "fdiv PInf PInf = NaN"
| "fdiv PInf NInf = NaN"
| "fdiv NInf PInf = NaN"
| "fdiv NInf NInf = NaN"

fun fadd :: "f64 \<Rightarrow> f64 \<Rightarrow> f64" where
  "fadd NaN _ = NaN"
| "fadd _ NaN = NaN"
| "fadd (Fin a) (Fin b) = Fin (a + b)"
| "fadd (Fin a) PInf = PInf"
| "fadd (Fin a) NInf = NInf"
| "fadd PInf (Fin b) = PInf"
| "fadd NInf (Fin b) = NInf"
| "fadd PInf PInf = PInf"
| "fadd NInf NInf = NInf"
| "fadd PInf NInf = NaN"
| "fadd NInf PInf = NaN"

definition fsub :: "f64 \<Rightarrow> f64 \<Rightarrow> f64" where
  "fsub x y = fadd x (fneg y)"

fun flt :: "f64 \<Rightarrow> f64 \<Rightarrow> bool" where
  "flt NaN _ = False"
| "flt _ NaN = False"
| "flt (Fin a) (Fin b) = (a < b)"
| "flt (Fin a) PInf = True"
| "flt (Fin a) NInf = False"
| "flt PInf _ = False"
| "flt NInf (Fin b) = True"
| "flt NInf PInf = True"
| "flt NInf NInf = False"

definition fgt :: "f64 \<Rightarrow> f64 \<Rightarrow> bool" where
  "fgt x y = flt y x"

fun fabs :: "f64 \<Rightarrow> f64" where
  "fabs (Fin a) = Fin \<bar>a\<bar>"
| "fabs PInf = PInf"
| "fabs NInf = PInf"
| "fabs NaN = NaN"

text \<open>
  The conversion \<^verbatim>\<open>int(x)\<close> of a finite float truncates toward zero. Go leaves the
  result unspecified when the truncated value does not fit the integer type; the model
  has unbounded integers.
\<close>

definition go_int :: "real \<Rightarrow> int" where
  "go_int x = (if x \<ge> 0 then \<lfloor>x\<rfloor> else \<lceil>x\<rceil>)"

text \<open>\<^verbatim>\<open>math.Round\<close> rounds half away from zero.\<close>

definition go_round :: "real \<Rightarrow> real" where
  "go_round x = (if x \<ge> 0 then of_int \<lfloor>x + 1 / 2\<rfloor> else of_int \<lceil>x - 1 / 2\<rceil>)"

section \<open>Data model (ai\_analysis\_engine.go)\<close>

text \<open>
  The structs of the source as records. A field keeps its Go name, except where two
  structs share one (\<open>MACD\<close> is the field of \<open>TechnicalIndicators\<close>; the line value
  inside \<open>MACDValues\<close> is \<open>MACDLine\<close>) and for the one-letter fields \<open>K\<close> and \<open>D\<close> of
  \<open>StochasticValues\<close> (\<open>StochK\<close>, \<open>StochD\<close>).
\<close>

record MACDValues =
  MACDLine :: real
  Signal :: real
  Histogram :: real
  Crossover :: string

record StochasticValues =
  StochK :: f64
  StochD :: f64
  Oversold :: bool
  Overbought :: bool

record BollingerValues =
  Upper :: real
  Middle :: real
  Lower :: real
  Width :: f64

record VolumeProfileData =
  POC :: real
  VAH :: real
  VAL :: real
  VolumeIncrease :: bool
  AccumulationDist :: f64

record TechnicalIndicators =
  Support :: "real list"
  Resistance :: "real list"
  Trend :: string
  TrendStrength :: real
  SMA20 :: real
  SMA50 :: real
  SMA200 :: real
  EMA9 :: real
  EMA21 :: real
  VWAP :: real
  RSI :: real
  RSIDivergence :: bool
  MACD :: MACDValues
  Stochastic :: StochasticValues
  BollingerBands :: BollingerValues
  ATR :: real
  VolumeProfile :: VolumeProfileData
  CandlePattern :: string
  ChartPattern :: string
  BullishScore :: real
  BearishScore :: real

record FundamentalData =
  PE :: real
  PB :: real
  DebtToEquity :: real
  ROE :: real
  QuarterlyGrowth :: real
  IndustryPE :: real
  RelativeStrength :: real
  FundamentalScore :: real

record SentimentData =
  DeliveryPercent :: real
  BulkDeals :: int
  FIIActivity :: string
  OptionsPCR :: real
  OpenInterest :: real
  SentimentScore :: real

record RiskRewardAnalysis =
  EntryPrice :: real
  StopLoss :: real
  Target1 :: real
  Target2 :: real
  Target3 :: real
  RiskAmount :: real
  RewardAmount :: real
  RiskRewardRatio :: real
  PositionSize :: int
  MaxLoss :: real
  MaxProfit :: real

record TradeSignal =
  Action :: string
  Strength :: string
  Timeframe :: string
  Strategy :: string
  Reasons :: "string list"
  Warnings :: "string list"
  ExpectedReturn :: f64
  HoldingPeriod :: string
  Priority :: int

record MarketAnalysis =
  Symbol :: string
  Technical :: TechnicalIndicators
  Fundamental :: FundamentalData
  Sentiment :: SentimentData
  RiskReward :: RiskRewardAnalysis
  TradeSignal :: TradeSignal
  Confidence :: real
  TimeAnalyzed :: nat

text \<open>
  Go's zero values: what a composite literal with no fields, such as
  \<^verbatim>\<open>TechnicalIndicators{}\<close>, denotes. Numbers are \<open>0\<close>, booleans false, strings
  empty and slices nil (no element).
\<close>

definition zeroMACDValues :: MACDValues where
  "zeroMACDValues = \<lparr>MACDLine = 0, Signal = 0, Histogram = 0, Crossover = []\<rparr>"

definition zeroStochasticValues :: StochasticValues where
  "zeroStochasticValues =
     \<lparr>StochK = Fin 0, StochD = Fin 0, Oversold = False, Overbought = False\<rparr>"

definition zeroBollingerValues :: BollingerValues where
  "zeroBollingerValues = \<lparr>Upper = 0, Middle = 0, Lower = 0, Width = Fin 0\<rparr>"

definition zeroVolumeProfileData :: VolumeProfileData where
  "zeroVolumeProfileData =
     \<lparr>POC = 0, VAH = 0, VAL = 0, VolumeIncrease = False, AccumulationDist = Fin 0\<rparr>"

definition zeroTechnicalIndicators :: TechnicalIndicators where
  "zeroTechnicalIndicators =
     \<lparr>Support = [], Resistance = [], Trend = [], TrendStrength = 0,
      SMA20 = 0, SMA50 = 0, SMA200 = 0, EMA9 = 0, EMA21 = 0, VWAP = 0,
      RSI = 0, RSIDivergence = False, MACD = zeroMACDValues,
      Stochastic = zeroStochasticValues, BollingerBands = zeroBollingerValues,
      ATR = 0, VolumeProfile = zeroVolumeProfileData,
      CandlePattern = [], ChartPattern = [], BullishScore = 0, BearishScore = 0\<rparr>"

definition zeroFundamentalData :: FundamentalData where
  "zeroFundamentalData =
     \<lparr>PE = 0, PB = 0, DebtToEquity = 0, ROE = 0, QuarterlyGrowth = 0, IndustryPE = 0,
      RelativeStrength = 0, FundamentalScore = 0\<rparr>"

definition zeroSentimentData :: SentimentData where
  "zeroSentimentData =
     \<lparr>DeliveryPercent = 0, BulkDeals = 0, FIIActivity = [], OptionsPCR = 0,
      OpenInterest = 0, SentimentScore = 0\<rparr>"

definition zeroRiskRewardAnalysis :: RiskRewardAnalysis where
  "zeroRiskRewardAnalysis =
     \<lparr>EntryPrice = 0, StopLoss = 0, Target1 = 0, Target2 = 0, Target3 = 0,
      RiskAmount = 0, RewardAmount = 0, RiskRewardRatio = 0, PositionSize = 0,
      MaxLoss = 0, MaxProfit = 0\<rparr>"

definition zeroTradeSignal :: TradeSignal where
  "zeroTradeSignal =
     \<lparr>Action = [], Strength = [], Timeframe = [], Strategy = [], Reasons = [],
      Warnings = [], ExpectedReturn = Fin 0, HoldingPeriod = [], Priority = 0\<rparr>"

section \<open>Indicator library (ai\_analysis\_engine.go)\<close>

text \<open>
  A slice \<^verbatim>\<open>xs[a:]\<close> is \<open>drop a xs\<close> and \<^verbatim>\<open>xs[:b]\<close> is \<open>take b xs\<close>. Lengths and
  window sizes are natural numbers; each subtraction below stands behind the guard of the
  source that keeps it from going negative. Every \<open>period\<close> is positive at the call
  sites of the source (\<open>9\<close>, \<open>12\<close>, \<open>14\<close>, \<open>20\<close>, \<open>21\<close>, \<open>26\<close>, \<open>50\<close>, \<open>200\<close>, and
  \<open>min 10 (length volumes)\<close> behind the guard \<open>length volumes \<noteq> 0\<close>), so the division by
  \<open>period\<close> is a division by a non-zero number.
\<close>

definition calculateSMA :: "real list \<Rightarrow> nat \<Rightarrow> real" where
  "calculateSMA prices period =
     (if length prices < period then 0
      else foldl (\<lambda>sum p. sum + p) 0 (drop (length prices - period) prices) / real period)"

definition calculateEMA :: "real list \<Rightarrow> nat \<Rightarrow> real" where
  "calculateEMA prices period =
     (if length prices < period then 0
      else
        let multiplier = 2 / real (period + 1);
            ema = calculateSMA (take period prices) period
        in foldl (\<lambda>ema p. (p - ema) * multiplier + ema) ema (drop period prices))"

definition calculateRSI :: "real list \<Rightarrow> nat \<Rightarrow> real" where
  "calculateRSI prices period =
     (if length prices < period + 1 then 50
      else
        let n = length prices;
            gl = foldl (\<lambda>(gains, losses) i.
                     let change = prices ! i - prices ! (i - 1)
                     in if change > 0 then (gains + change, losses)
                        else (gains, losses + \<bar>change\<bar>))
                   (0, 0) [n - period ..< n];
            avgGain = fst gl / real period;
            avgLoss = snd gl / real period
        in if avgLoss = 0 then 100
           else let rs = avgGain / avgLoss in 100 - (100 / (1 + rs)))"

definition detectRSIDivergence :: "real list \<Rightarrow> real \<Rightarrow> bool" where
  "detectRSIDivergence prices rsi =
     (if length prices < 20 then False
      else
        let recentPrices = drop (length prices - 20) prices;
            pm = foldl (\<lambda>(priceMin, priceMinIdx) i.
                     let p = recentPrices ! i
                     in if p < priceMin then (p, i) else (priceMin, priceMinIdx))
                   (recentPrices ! 0, 0::nat) [0 ..< length recentPrices];
            priceMinIdx = snd pm
        in if priceMinIdx > 10 \<and> rsi < 40 then True else False)"

definition calculateMACD :: "real list \<Rightarrow> MACDValues" where
  "calculateMACD prices =
     (if length prices < 26 then zeroMACDValues
      else
        let ema12 = calculateEMA prices 12;
            ema26 = calculateEMA prices 26;
            macd = ema12 - ema26;
            signal = calculateEMA [macd] 9;
            histogram = macd - signal;
            crossover =
              (if histogram > 0 \<and> histogram > signal * 0.01 then ''bullish''
               else if histogram < 0 \<and> histogram < signal * (- 0.01) then ''bearish''
               else ''none'')
        in \<lparr>MACDLine = macd, Signal = signal, Histogram = histogram,
            Crossover = crossover\<rparr>)"

text \<open>
  \<open>calculateStochastic\<close> divides by \<open>highest - lowest\<close> with no guard, so \<open>%K\<close> is an
  \<open>f64\<close>. The source reads \<^verbatim>\<open>recentPrices[0]\<close>, which is in range because \<open>period\<close> is
  \<open>14\<close> at the only call.
\<close>

definition calculateStochastic :: "real list \<Rightarrow> nat \<Rightarrow> nat \<Rightarrow> nat \<Rightarrow> StochasticValues" where
  "calculateStochastic prices period kSmooth dSmooth =
     (if length prices < period then zeroStochasticValues
      else
        let recentPrices = drop (length prices - period) prices;
            lowest = foldl (\<lambda>lowest p. if p < lowest then p else lowest)
                       (recentPrices ! 0) recentPrices;
            highest = foldl (\<lambda>highest p. if p > highest then p else highest)
                        (recentPrices ! 0) recentPrices;
            current = prices ! (length prices - 1);
            k = fmul (Fin 100) (fdiv (Fin (current - lowest)) (Fin (highest - lowest)));
            d = k
        in \<lparr>StochK = k, StochD = d, Oversold = flt k (Fin 20),
            Overbought = fgt k (Fin 80)\<rparr>)"

definition calculateBollingerBands :: "real list \<Rightarrow> nat \<Rightarrow> real \<Rightarrow> BollingerValues" where
  "calculateBollingerBands prices period stdDev =
     (if length prices < period then zeroBollingerValues
      else
        let sma = calculateSMA prices period;
            variance = foldl (\<lambda>variance p. let diff = p - sma in variance + diff * diff)
                         0 (drop (length prices - period) prices);
            std = sqrt (variance / real period)
        in \<lparr>Upper = sma + (std * stdDev), Middle = sma, Lower = sma - (std * stdDev),
            Width = fmul (fdiv (Fin (std * stdDev * 2)) (Fin sma)) (Fin 100)\<rparr>)"

definition calculateATR :: "real list \<Rightarrow> nat \<Rightarrow> real" where
  "calculateATR prices period =
     (if length prices < period + 1 then 0
      else
        let n = length prices;
            trValues = foldl (\<lambda>trValues i.
                         if i = 0 then trValues
                         else
                           let high = prices ! i;
                               low = prices ! i * 0.98;
                               prevClose = prices ! (i - 1);
                               tr = max (high - low)
                                      (max \<bar>high - prevClose\<bar> \<bar>low - prevClose\<bar>)
                           in trValues @ [tr])
                       [] [n - period ..< n];
            sum = foldl (\<lambda>sum tr. sum + tr) 0 trValues
        in sum / real (length trValues))"

definition calculateVWAP :: "real list \<Rightarrow> real list \<Rightarrow> real" where
  "calculateVWAP prices volumes =
     (if length prices = 0 \<or> length volumes = 0 \<or> length prices \<noteq> length volumes then 0
      else
        let tt = foldl (\<lambda>(totalPV, totalVolume) i.
                     (totalPV + prices ! i * volumes ! i, totalVolume + volumes ! i))
                   (0, 0) [0 ..< length prices];
            totalPV = fst tt;
            totalVolume = snd tt
        in if totalVolume = 0 then 0 else totalPV / totalVolume)"

text \<open>
  \<open>findSupportResistance\<close>: the scan of the interior points, each compared with its five
  neighbours on either side, keeps at most three levels of each kind in the order found;
  \<^verbatim>\<open>sort.Float64s\<close> then sorts both slices in ascending order.
\<close>

definition localExtremum :: "real list \<Rightarrow> nat \<Rightarrow> bool \<times> bool" where
  "localExtremum prices i =
     foldl (\<lambda>(isSupport, isResistance) j.
        (if j \<noteq> i \<and> prices ! j < prices ! i then False else isSupport,
         if j \<noteq> i \<and> prices ! j > prices ! i then False else isResistance))
      (True, True) [i - 5 ..< i + 6]"

definition scanStep :: "real list \<Rightarrow> real list \<times> real list \<Rightarrow> nat \<Rightarrow> real list \<times> real list" where
  "scanStep prices sr i =
     (let support = fst sr;
          resistance = snd sr;
          ext = localExtremum prices i;
          support' = (if fst ext \<and> length support < 3 then support @ [prices ! i]
                      else support);
          resistance' = (if snd ext \<and> length resistance < 3 then resistance @ [prices ! i]
                         else resistance)
      in (support', resistance'))"

definition findSupportResistance :: "real list \<Rightarrow> real list \<times> real list" where
  "findSupportResistance prices =
     (if length prices < 20 then ([], [])
      else
        let sr = foldl (scanStep prices) ([], []) [10 ..< length prices - 10]
        in (sort (fst sr), sort (snd sr)))"

definition determineTrend :: "real list \<Rightarrow> TechnicalIndicators \<Rightarrow> string \<times> real" where
  "determineTrend prices indicators =
     (if length prices < 50 then (''neutral'', 0)
      else
        let n = length prices;
            current = prices ! (n - 1);
            trendPoints = (0::real);
            trendPoints =
              (if current > SMA20 indicators \<and> SMA20 indicators > SMA50 indicators
                  \<and> SMA50 indicators > SMA200 indicators then trendPoints + 3
               else if current < SMA20 indicators \<and> SMA20 indicators < SMA50 indicators
                  \<and> SMA50 indicators < SMA200 indicators then trendPoints - 3
               else trendPoints);
            recent20 = calculateSMA (drop (n - 20) prices) 20;
            older20 = calculateSMA (take 20 (drop (n - 40) prices)) 20;
            trendPoints = (if recent20 > older20 then trendPoints + 2 else trendPoints - 2);
            trendPoints =
              (if Histogram (MACD indicators) > 0 then trendPoints + 1 else trendPoints - 1);
            strength = \<bar>trendPoints\<bar> / 6 * 100;
            trend = (if trendPoints > 2 then ''bullish''
                     else if trendPoints < - 2 then ''bearish'' else ''neutral'')
        in (trend, strength))"

definition detectCandlePattern :: "real list \<Rightarrow> string" where
  "detectCandlePattern prices =
     (if length prices < 5 then ''none''
      else
        let recent = drop (length prices - 3) prices
        in if recent ! 0 < recent ! 1 \<and> recent ! 1 < recent ! 2
              \<and> recent ! 2 > recent ! 1 * 1.01 then ''bullish_engulfing''
           else if recent ! 0 > recent ! 1 \<and> recent ! 1 > recent ! 2
              \<and> recent ! 2 < recent ! 1 * 0.99 then ''bearish_engulfing''
           else if \<bar>recent ! 2 - recent ! 1\<bar> < recent ! 1 * 0.001 then ''doji''
           else ''none'')"

text \<open>
  \<open>detectChartPattern\<close> walks the last fifty closes in steps of five; \<open>segmentHighLow\<close> is
  the body of that loop for the segment that starts at \<open>i\<close>.
\<close>

definition segmentHighLow :: "real list \<Rightarrow> nat \<Rightarrow> real \<times> real" where
  "segmentHighLow recent50 i =
     (let segment = take (min (i + 5) (length recent50) - i) (drop i recent50)
      in foldl (\<lambda>(high, low) p.
            (if p > high then p else high, if p < low then p else low))
          (segment ! 0, segment ! 0) segment)"

definition detectChartPattern :: "real list \<Rightarrow> string" where
  "detectChartPattern prices =
     (if length prices < 50 then ''none''
      else
        let recent50 = drop (length prices - 50) prices;
            starts = map (\<lambda>k. k * 5) [0 ..< (length recent50 + 4) div 5];
            highs = map (\<lambda>i. fst (segmentHighLow recent50 i)) starts;
            lows = map (\<lambda>i. snd (segmentHighLow recent50 i)) starts
        in if length highs \<ge> 3 \<and> length lows \<ge> 3 then
             let highsDescending = highs ! 0 > highs ! (length highs - 1);
                 lowsAscending = lows ! 0 < lows ! (length lows - 1)
             in if highsDescending \<and> lowsAscending then ''triangle''
                else if \<not> highsDescending \<and> \<not> lowsAscending then ''channel''
                else ''none''
           else ''none'')"

text \<open>
  \<open>calculateVolumeProfile\<close> sums the volume per price bucket in a Go map and then ranges
  over the map for the bucket with the largest volume. Go leaves the order of that
  iteration open, so buckets that tie for the largest volume can give either price; the
  model ranges over the buckets in ascending order of price. Nothing proved below reads
  the point of control.
\<close>

definition priceBucket :: "real \<Rightarrow> real" where
  "priceBucket p = go_round (p * 2) / 2"

definition calculateVolumeProfile :: "real list \<Rightarrow> real list \<Rightarrow> VolumeProfileData" where
  "calculateVolumeProfile prices volumes =
     (if length prices = 0 \<or> length volumes = 0 then zeroVolumeProfileData
      else
        let idx = [0 ..< min (length prices) (length volumes)];
            priceVolume = foldl (\<lambda>m i.
                 let roundedPrice = priceBucket (prices ! i)
                 in m(roundedPrice \<mapsto>
                      (case m roundedPrice of None \<Rightarrow> 0 | Some v \<Rightarrow> v) + volumes ! i))
               Map.empty idx;
            buckets = sort (remdups (map (\<lambda>i. priceBucket (prices ! i)) idx));
            pm = foldl (\<lambda>(poc, maxVolume) price.
                   let vol = (case priceVolume price of None \<Rightarrow> 0 | Some v \<Rightarrow> v)
                   in if vol > maxVolume then (price, vol) else (poc, maxVolume))
                 (0, 0) buckets;
            poc = fst pm;
            totalVolume = foldl (\<lambda>t vol. t + vol) 0 volumes;
            vah = poc * 1.01;
            val = poc * 0.99;
            nv = length volumes;
            recentVolume = calculateSMA (drop (nv - 10) volumes) (min 10 nv);
            olderVolume =
              calculateSMA (take ((nv - 10) - (nv - 20)) (drop (nv - 20) volumes)) (min 10 nv);
            volumeIncrease = (recentVolume > olderVolume * 1.2);
            ad = (if length prices > 1 \<and> length volumes > 0 then
                    let np = length prices;
                        moneyFlow =
                          fmul (fdiv (Fin (prices ! (np - 1) - prices ! (np - 2)))
                                     (Fin (prices ! (np - 2))))
                               (Fin (volumes ! (nv - 1)))
                    in fmul (fdiv moneyFlow (Fin totalVolume)) (Fin 100)
                  else Fin 0)
        in \<lparr>POC = poc, VAH = vah, VAL = val, VolumeIncrease = volumeIncrease,
            AccumulationDist = ad\<rparr>)"

text \<open>
  The two composite scores. Each of the six factors adds its weight to \<open>factors\<close> in
  every branch and a share of it to \<open>score\<close>; the pair \<open>(score, factors)\<close> is threaded
  through the six steps in the order of the source.
\<close>

definition calculateBullishScore :: "TechnicalIndicators \<Rightarrow> real" where
  "calculateBullishScore indicators =
     (let sf = (0::real, 0::real);
          sf = (if Trend indicators = ''bullish''
                then (fst sf + 25 * (TrendStrength indicators / 100), snd sf + 25)
                else (fst sf, snd sf + 25));
          sf = (if RSI indicators > 30 \<and> RSI indicators < 70
                then (fst sf + 15 * ((RSI indicators - 30) / 40), snd sf + 15)
                else if RSI indicators \<le> 30 then (fst sf + 15, snd sf + 15)
                else (fst sf, snd sf + 15));
          sf = (if Crossover (MACD indicators) = ''bullish'' then (fst sf + 20, snd sf + 20)
                else if Histogram (MACD indicators) > 0 then (fst sf + 10, snd sf + 20)
                else (fst sf, snd sf + 20));
          sf = (if Oversold (Stochastic indicators) then (fst sf + 10, snd sf + 10)
                else if fgt (StochK (Stochastic indicators)) (Fin 20)
                        \<and> flt (StochK (Stochastic indicators)) (Fin 80)
                then (fst sf + 5, snd sf + 10)
                else (fst sf, snd sf + 10));
          sf = (if VolumeIncrease (VolumeProfile indicators)
                   \<and> fgt (AccumulationDist (VolumeProfile indicators)) (Fin 0)
                then (fst sf + 15, snd sf + 15)
                else if fgt (AccumulationDist (VolumeProfile indicators)) (Fin 0)
                then (fst sf + 7.5, snd sf + 15)
                else (fst sf, snd sf + 15));
          sf = (if CandlePattern indicators = ''bullish_engulfing''
                then (fst sf + 15, snd sf + 15)
                else if ChartPattern indicators = ''triangle''
                        \<or> ChartPattern indicators = ''channel''
                then (fst sf + 7.5, snd sf + 15)
                else (fst sf, snd sf + 15))
      in if snd sf = 0 then 50 else (fst sf / snd sf) * 100)"

definition calculateBearishScore :: "TechnicalIndicators \<Rightarrow> real" where
  "calculateBearishScore indicators =
     (let sf = (0::real, 0::real);
          sf = (if Trend indicators = ''bearish''
                then (fst sf + 25 * (TrendStrength indicators / 100), snd sf + 25)
                else (fst sf, snd sf + 25));
          sf = (if RSI indicators > 70 then (fst sf + 15, snd sf + 15)
                else if RSI indicators > 50 \<and> RSI indicators \<le> 70
                then (fst sf + 15 * ((70 - RSI indicators) / 20), snd sf + 15)
                else (fst sf, snd sf + 15));
          sf = (if Crossover (MACD indicators) = ''bearish'' then (fst sf + 20, snd sf + 20)
                else if Histogram (MACD indicators) < 0 then (fst sf + 10, snd sf + 20)
                else (fst sf, snd sf + 20));
          sf = (if Overbought (Stochastic indicators) then (fst sf + 10, snd sf + 10)
                else if fgt (StochK (Stochastic indicators)) (Fin 50)
                then (fst sf + 5, snd sf + 10)
                else (fst sf, snd sf + 10));
          sf = (if VolumeIncrease (VolumeProfile indicators)
                   \<and> flt (AccumulationDist (VolumeProfile indicators)) (Fin 0)
                then (fst sf + 15, snd sf + 15)
                else if flt (AccumulationDist (VolumeProfile indicators)) (Fin 0)
                then (fst sf + 7.5, snd sf + 15)
                else (fst sf, snd sf + 15));
          sf = (if CandlePattern indicators = ''bearish_engulfing''
                then (fst sf + 15, snd sf + 15)
                else if CandlePattern indicators = ''doji'' \<and> Trend indicators = ''bearish''
                then (fst sf + 7.5, snd sf + 15)
                else (fst sf, snd sf + 15))
      in if snd sf = 0 then 50 else (fst sf / snd sf) * 100)"

text \<open>
  \<open>CalculateTechnicalIndicators\<close>: the guard on the length of the series comes first and
  returns the zero value; otherwise the fields are filled in the order of the source,
  the later ones reading the earlier ones.
\<close>

definition CalculateTechnicalIndicators :: "real list \<Rightarrow> real list \<Rightarrow> TechnicalIndicators" where
  "CalculateTechnicalIndicators prices volumes =
     (if length prices < 200 then zeroTechnicalIndicators
      else
        let indicators = zeroTechnicalIndicators;
            indicators = indicators\<lparr>SMA20 := calculateSMA prices 20\<rparr>;
            indicators = indicators\<lparr>SMA50 := calculateSMA prices 50\<rparr>;
            indicators = indicators\<lparr>SMA200 := calculateSMA prices 200\<rparr>;
            indicators = indicators\<lparr>EMA9 := calculateEMA prices 9\<rparr>;
            indicators = indicators\<lparr>EMA21 := calculateEMA prices 21\<rparr>;
            indicators = indicators\<lparr>RSI := calculateRSI prices 14\<rparr>;
            indicators =
              indicators\<lparr>RSIDivergence := detectRSIDivergence prices (RSI indicators)\<rparr>;
            indicators = indicators\<lparr>MACD := calculateMACD prices\<rparr>;
            indicators = indicators\<lparr>Stochastic := calculateStochastic prices 14 3 3\<rparr>;
            indicators = indicators\<lparr>BollingerBands := calculateBollingerBands prices 20 2\<rparr>;
            indicators = indicators\<lparr>ATR := calculateATR prices 14\<rparr>;
            indicators = indicators\<lparr>VWAP := calculateVWAP prices volumes\<rparr>;
            sr = findSupportResistance prices;
            indicators = indicators\<lparr>Support := fst sr, Resistance := snd sr\<rparr>;
            ts = determineTrend prices indicators;
            indicators = indicators\<lparr>Trend := fst ts, TrendStrength := snd ts\<rparr>;
            indicators = indicators\<lparr>CandlePattern := detectCandlePattern prices\<rparr>;
            indicators = indicators\<lparr>ChartPattern := detectChartPattern prices\<rparr>;
            indicators = indicators\<lparr>VolumeProfile := calculateVolumeProfile prices volumes\<rparr>;
            indicators = indicators\<lparr>BullishScore := calculateBullishScore indicators\<rparr>;
            indicators = indicators\<lparr>BearishScore := calculateBearishScore indicators\<rparr>
        in indicators)"

section \<open>Signal generator (ai\_analysis\_engine.go)\<close>

text \<open>
  The reasons of a signal are built with \<^verbatim>\<open>fmt.Sprintf\<close> and the verb \<^verbatim>\<open>%.1f\<close>. The
  rendering of a float with one decimal is the parameter \<open>fmt1\<close> of the functions below;
  no property proved here depends on it.
\<close>

definition determineTimeframe :: "MarketAnalysis \<Rightarrow> string" where
  "determineTimeframe analysis =
     (if ATR (Technical analysis) < EntryPrice (RiskReward analysis) * 0.01 then ''intraday''
      else if TrendStrength (Technical analysis) > 70 then ''positional''
      else ''swing'')"

definition determineStrategy :: "MarketAnalysis \<Rightarrow> TradeSignal \<Rightarrow> string" where
  "determineStrategy analysis signal =
     (if Action signal \<noteq> ''BUY'' then ''Wait for better entry''
      else
        let strategies = ([]::string list);
            strategies = (if RSI (Technical analysis) < 30
                          then strategies @ [''Oversold bounce play''] else strategies);
            strategies = (if Crossover (MACD (Technical analysis)) = ''bullish''
                          then strategies @ [''MACD momentum trade''] else strategies);
            strategies = (if Trend (Technical analysis) = ''bullish''
                             \<and> TrendStrength (Technical analysis) > 60
                          then strategies @ [''Trend following''] else strategies);
            strategies =
              (if length (Support (Technical analysis)) > 0 then
                 let currentPrice = EntryPrice (RiskReward analysis)
                 in if list_ex (\<lambda>support.
                          flt (fdiv (Fin \<bar>currentPrice - support\<bar>) (Fin support)) (Fin 0.02))
                        (Support (Technical analysis))
                    then strategies @ [''Support level bounce''] else strategies
               else strategies);
            strategies = (if ChartPattern (Technical analysis) = ''triangle''
                          then strategies @ [''Triangle breakout''] else strategies)
        in if length strategies = 0 then ''General momentum trade'' else strategies ! 0)"

definition estimateHoldingPeriod :: "string \<Rightarrow> string" where
  "estimateHoldingPeriod timeframe =
     (if timeframe = ''intraday'' then ''1-2 days''
      else if timeframe = ''swing'' then ''3-10 days''
      else if timeframe = ''positional'' then ''2-4 weeks''
      else ''5-7 days'')"

text \<open>
  \<open>calculatePriority\<close> in two parts: \<open>rawPriority\<close> is the value of the variable
  \<^verbatim>\<open>priority\<close> when the source reaches its comment "Cap priority between 1 and 10", and
  \<open>calculatePriority\<close> applies the cap that follows. The values stay far inside Go's
  \<^verbatim>\<open>int\<close>, so \<open>int\<close> models them without wrap-around.
\<close>

definition rawPriority :: "TradeSignal \<Rightarrow> MarketAnalysis \<Rightarrow> int" where
  "rawPriority signal analysis =
     (let priority = (5::int);
          priority = (if Strength signal = ''strong'' then priority + 2
                      else if Strength signal = ''moderate'' then priority + 1
                      else priority);
          priority = (if Confidence analysis > 80 then priority + 2
                      else if Confidence analysis > 70 then priority + 1
                      else priority);
          priority = (if RiskRewardRatio (RiskReward analysis) > 3 then priority + 1
                      else priority);
          priority = (if length (Warnings signal) > 2 then priority - 2
                      else if length (Warnings signal) > 0 then priority - 1
                      else priority)
      in priority)"

definition calculatePriority :: "TradeSignal \<Rightarrow> MarketAnalysis \<Rightarrow> int" where
  "calculatePriority signal analysis =
     (let priority = rawPriority signal analysis
      in if priority > 10 then 10 else if priority < 1 then 1 else priority)"

text \<open>
  \<open>GenerateTradeSignal\<close>. \<open>decideAction\<close> is the first statement of the source after the
  initial value: the chain of three conditions that sets the action, the strength, the
  timeframe, the reasons and the overbought warning. The remaining statements follow in
  \<open>GenerateTradeSignal\<close> in the order of the source.
\<close>

definition initialSignal :: TradeSignal where
  "initialSignal =
     zeroTradeSignal\<lparr>Action := ''HOLD'', Strength := ''weak'', Reasons := [], Warnings := []\<rparr>"

definition decideAction :: "(real \<Rightarrow> string) \<Rightarrow> MarketAnalysis \<Rightarrow> TradeSignal \<Rightarrow> TradeSignal" where
  "decideAction fmt1 analysis signal =
     (let bullishScore = BullishScore (Technical analysis);
          bearishScore = BearishScore (Technical analysis);
          confidence = Confidence analysis
      in if bullishScore > 70 \<and> confidence > 75 then
           let signal = signal\<lparr>Action := ''BUY'', Strength := ''strong'',
                                Timeframe := determineTimeframe analysis\<rparr>;
               signal = signal\<lparr>Reasons := Reasons signal
                          @ [''Strong bullish score: '' @ fmt1 bullishScore @ ''%'']\<rparr>;
               signal = (if RSI (Technical analysis) < 40
                         then signal\<lparr>Reasons := Reasons signal
                                @ [''RSI oversold - good entry point'']\<rparr>
                         else signal);
               signal = (if Crossover (MACD (Technical analysis)) = ''bullish''
                         then signal\<lparr>Reasons := Reasons signal @ [''MACD bullish crossover'']\<rparr>
                         else signal);
               signal = (if Trend (Technical analysis) = ''bullish''
                         then signal\<lparr>Reasons := Reasons signal
                                @ [''Bullish trend with ''
                                   @ fmt1 (TrendStrength (Technical analysis))
                                   @ ''% strength'']\<rparr>
                         else signal)
           in signal
         else if bullishScore > 60 \<and> confidence > 65 then
           let signal = signal\<lparr>Action := ''BUY'', Strength := ''moderate'',
                                Timeframe := determineTimeframe analysis\<rparr>;
               signal = signal\<lparr>Reasons := Reasons signal
                          @ [''Moderate bullish score: '' @ fmt1 bullishScore @ ''%'']\<rparr>
           in signal
         else if bearishScore > 70 \<and> confidence > 75 then
           let signal = signal\<lparr>Action := ''SELL'', Strength := ''strong''\<rparr>;
               signal = signal\<lparr>Reasons := Reasons signal
                          @ [''Strong bearish score: '' @ fmt1 bearishScore @ ''%'']\<rparr>;
               signal = (if RSI (Technical analysis) > 70
                         then signal\<lparr>Warnings := Warnings signal
                                @ [''RSI overbought - potential reversal'']\<rparr>
                         else signal)
           in signal
         else signal)"

definition GenerateTradeSignal :: "(real \<Rightarrow> string) \<Rightarrow> MarketAnalysis \<Rightarrow> string \<Rightarrow> TradeSignal" where
  "GenerateTradeSignal fmt1 analysis riskTolerance =
     (let signal = decideAction fmt1 analysis initialSignal;
          signal = (if fgt (Width (BollingerBands (Technical analysis))) (Fin 5)
                    then signal\<lparr>Warnings := Warnings signal @ [''High volatility detected'']\<rparr>
                    else signal);
          signal = (if RiskRewardRatio (RiskReward analysis) < 2
                    then signal\<lparr>Warnings := Warnings signal
                           @ [''Risk-reward ratio below optimal (< 1:2)'']\<rparr>
                    else signal);
          signal = signal\<lparr>Strategy := determineStrategy analysis signal\<rparr>;
          signal = (if Action signal = ''BUY''
                    then signal\<lparr>ExpectedReturn :=
                             fmul (fdiv (Fin (Target1 (RiskReward analysis)
                                              - EntryPrice (RiskReward analysis)))
                                        (Fin (EntryPrice (RiskReward analysis))))
                                  (Fin 100),
                           HoldingPeriod := estimateHoldingPeriod (Timeframe signal)\<rparr>
                    else signal)
      in signal\<lparr>Priority := calculatePriority signal analysis\<rparr>)"

section \<open>Risk-reward engine and analysis pipeline (the tools file)\<close>

text \<open>
  The functions of the file that holds the tool handlers. The candle and the quote come
  from the client library; the records keep the fields this code reads or copies. The
  field \<^verbatim>\<open>Volume\<close> of the quote is \<open>QuoteVolume\<close> here, the candle has the name.
\<close>

record HistoricalData =
  Close :: real
  Volume :: int

record QuoteData =
  InstrumentToken :: int
  LastPrice :: real
  AveragePrice :: real
  QuoteVolume :: int
  NetChange :: real
  OI :: real
  LowerCircuitLimit :: real
  UpperCircuitLimit :: real
  Tradingsymbol :: string
  High :: real
  Low :: real
  Open :: real
  VolumeTraded :: int

definition getDefaultRiskPercent :: "string \<Rightarrow> real" where
  "getDefaultRiskPercent riskTolerance =
     (if riskTolerance = ''conservative'' then 1.0
      else if riskTolerance = ''moderate'' then 2.0
      else if riskTolerance = ''aggressive'' then 3.0
      else if riskTolerance = ''poverty-escape'' then 4.0
      else 2.0)"

text \<open>
  \<open>calculateRiskReward\<close>, statement by statement, in the four parts that the comments
  of the source mark: \<open>chooseStopLoss\<close> ("Calculate stop-loss based on support levels and
  ATR" and "Use ATR for more dynamic stop-loss"), \<open>rawTargets\<close> ("Calculate targets
  based on resistance and risk-reward"), \<open>adjustTargets\<close> ("Adjust targets based on
  resistance levels", the loop over the resistance levels with their indices) and
  \<open>sizePosition\<close> ("Calculate position size" to the end).
\<close>

definition adjustTarget :: "RiskRewardAnalysis \<Rightarrow> nat \<times> real \<Rightarrow> RiskRewardAnalysis" where
  "adjustTarget rr ir =
     (let i = fst ir; resistance = snd ir
      in if i = 0 \<and> resistance < Target1 rr then rr\<lparr>Target1 := resistance * 0.995\<rparr>
         else if i = 1 \<and> resistance < Target2 rr then rr\<lparr>Target2 := resistance * 0.995\<rparr>
         else if i = 2 \<and> resistance < Target3 rr then rr\<lparr>Target3 := resistance * 0.995\<rparr>
         else rr)"

definition adjustTargets :: "real list \<Rightarrow> RiskRewardAnalysis \<Rightarrow> RiskRewardAnalysis" where
  "adjustTargets resistance rr =
     (if length resistance > 0
      then foldl adjustTarget rr (zip [0 ..< length resistance] resistance)
      else rr)"

definition chooseStopLoss ::
  "real \<Rightarrow> TechnicalIndicators \<Rightarrow> RiskRewardAnalysis \<Rightarrow> RiskRewardAnalysis" where
  "chooseStopLoss currentPrice technical rr =
     (let rr = (if length (Support technical) > 0
                then rr\<lparr>StopLoss :=
                          Support technical ! (length (Support technical) - 1) * 0.99\<rparr>
                else rr\<lparr>StopLoss := currentPrice * 0.98\<rparr>);
          rr = (if ATR technical > 0 then
                  let atrStop = currentPrice - (ATR technical * 1.5)
                  in if atrStop > StopLoss rr then rr\<lparr>StopLoss := atrStop\<rparr> else rr
                else rr)
      in rr)"

definition rawTargets :: "real \<Rightarrow> RiskRewardAnalysis \<Rightarrow> RiskRewardAnalysis" where
  "rawTargets currentPrice rr =
     (let riskAmount = currentPrice - StopLoss rr;
          rr = rr\<lparr>Target1 := currentPrice + (riskAmount * 2)\<rparr>;
          rr = rr\<lparr>Target2 := currentPrice + (riskAmount * 3)\<rparr>;
          rr = rr\<lparr>Target3 := currentPrice + (riskAmount * 5)\<rparr>
      in rr)"

definition sizePosition ::
  "real \<Rightarrow> real \<Rightarrow> real \<Rightarrow> RiskRewardAnalysis \<Rightarrow> RiskRewardAnalysis" where
  "sizePosition currentPrice capital maxRiskPercent rr =
     (let maxLossAmount = capital * (maxRiskPercent / 100);
          riskPerShare = currentPrice - StopLoss rr;
          rr = (if riskPerShare > 0
                then rr\<lparr>PositionSize := go_int (maxLossAmount / riskPerShare)\<rparr>
                else rr\<lparr>PositionSize := 0\<rparr>);
          rr = rr\<lparr>RiskAmount := riskPerShare\<rparr>;
          rr = rr\<lparr>RewardAmount := Target1 rr - currentPrice\<rparr>;
          rr = (if RiskAmount rr > 0
                then rr\<lparr>RiskRewardRatio := RewardAmount rr / RiskAmount rr\<rparr>
                else rr);
          rr = rr\<lparr>MaxLoss := RiskAmount rr * of_int (PositionSize rr)\<rparr>;
          rr = rr\<lparr>MaxProfit := (Target3 rr - currentPrice) * of_int (PositionSize rr)\<rparr>
      in rr)"

definition calculateRiskReward ::
  "real \<Rightarrow> TechnicalIndicators \<Rightarrow> real \<Rightarrow> real \<Rightarrow> RiskRewardAnalysis" where
  "calculateRiskReward currentPrice technical capital maxRiskPercent =
     (let rr = zeroRiskRewardAnalysis\<lparr>EntryPrice := currentPrice\<rparr>;
          rr = chooseStopLoss currentPrice technical rr;
          rr = rawTargets currentPrice rr;
          rr = adjustTargets (Resistance technical) rr;
          rr = sizePosition currentPrice capital maxRiskPercent rr
      in rr)"

definition calculateConfidence :: "MarketAnalysis \<Rightarrow> real" where
  "calculateConfidence analysis =
     (let confidence = (50::real);
          confidence = (if BullishScore (Technical analysis) > 70 then confidence + 15
                        else if BullishScore (Technical analysis) > 60 then confidence + 10
                        else confidence);
          confidence = (if Trend (Technical analysis) = ''bullish''
                           \<and> TrendStrength (Technical analysis) > 60
                        then confidence + 10 else confidence);
          confidence = (if RiskRewardRatio (RiskReward analysis) > 3 then confidence + 10
                        else if RiskRewardRatio (RiskReward analysis) > 2 then confidence + 5
                        else confidence);
          confidence = (if FundamentalScore (Fundamental analysis) > 70
                        then confidence + 10 else confidence);
          confidence = (if SentimentScore (Sentiment analysis) > 70
                        then confidence + 5 else confidence)
      in if confidence > 100 then 100 else confidence)"

text \<open>
  \<open>performComprehensiveAnalysis\<close>. The clock reading \<^verbatim>\<open>time.Now()\<close> is the parameter
  \<open>now\<close>. The parameter \<^verbatim>\<open>timeframe\<close> is not read by the source.
\<close>

definition zeroMarketAnalysis :: MarketAnalysis where
  "zeroMarketAnalysis =
     \<lparr>Symbol = [], Technical = zeroTechnicalIndicators, Fundamental = zeroFundamentalData,
      Sentiment = zeroSentimentData, RiskReward = zeroRiskRewardAnalysis,
      TradeSignal = zeroTradeSignal, Confidence = 0, TimeAnalyzed = 0\<rparr>"

definition performComprehensiveAnalysis ::
  "(real \<Rightarrow> string) \<Rightarrow> nat \<Rightarrow> QuoteData \<Rightarrow> HistoricalData list \<Rightarrow> string \<Rightarrow> string
    \<Rightarrow> real \<Rightarrow> real \<Rightarrow> MarketAnalysis" where
  "performComprehensiveAnalysis fmt1 now quoteData historicalData timeframe riskTolerance
       capital maxRiskPercent =
     (let analysis = zeroMarketAnalysis\<lparr>Symbol := Tradingsymbol quoteData,
                                        TimeAnalyzed := now\<rparr>;
          prices = map Close historicalData;
          volumes = map (\<lambda>candle. real_of_int (Volume candle)) historicalData;
          analysis = (if length prices > 0
                      then analysis\<lparr>Technical := CalculateTechnicalIndicators prices volumes\<rparr>
                      else analysis);
          analysis = analysis\<lparr>Technical :=
                        (Technical analysis)\<lparr>VWAP := AveragePrice quoteData\<rparr>\<rparr>;
          analysis = analysis\<lparr>Fundamental :=
                        \<lparr>PE = 20.5, PB = 3.2, DebtToEquity = 0.5, ROE = 15.5,
                         QuarterlyGrowth = 8.5, IndustryPE = 22.0, RelativeStrength = 65.0,
                         FundamentalScore = 70.0\<rparr>\<rparr>;
          analysis = analysis\<lparr>Sentiment :=
                        \<lparr>DeliveryPercent = 45.5, BulkDeals = 0, FIIActivity = ''neutral'',
                         OptionsPCR = 0.9, OpenInterest = OI quoteData,
                         SentimentScore = 60.0\<rparr>\<rparr>;
          analysis = analysis\<lparr>RiskReward :=
                        calculateRiskReward (LastPrice quoteData) (Technical analysis)
                          capital maxRiskPercent\<rparr>;
          analysis = analysis\<lparr>TradeSignal :=
                        GenerateTradeSignal fmt1 analysis riskTolerance\<rparr>;
          analysis = analysis\<lparr>Confidence := calculateConfidence analysis\<rparr>
      in analysis)"

text \<open>
  The body that the handler of \<^verbatim>\<open>analyze_trade_opportunity\<close> runs inside the session,
  after it has read its arguments. The two calls to the market-data client are inputs:
  \<open>getQuote\<close> is \<open>None\<close> when \<^verbatim>\<open>GetQuote\<close> returns an error and otherwise the map of
  quotes, and \<open>historicalData\<close> is what \<^verbatim>\<open>GetHistoricalData\<close> returned (its error is
  logged and the analysis continues). A result \<open>Inl\<close> is the text of the tool's error
  result; \<open>Inr\<close> is the analysis that the handler then renders as a report. The quote
  of the client library is modelled by the record \<open>QuoteData\<close> that the handler copies it
  into, the symbol of the request aside.
\<close>

definition analyzeSession ::
  "(real \<Rightarrow> string) \<Rightarrow> nat \<Rightarrow> (string \<rightharpoonup> QuoteData) option \<Rightarrow> HistoricalData list
    \<Rightarrow> string \<Rightarrow> string \<Rightarrow> string \<Rightarrow> string \<Rightarrow> real \<Rightarrow> real \<Rightarrow> string + MarketAnalysis" where
  "analyzeSession fmt1 now getQuote historicalData symbol exchange timeframe riskTolerance
       capital maxRiskPercent =
     (let instrument = exchange @ '':'' @ symbol
      in case getQuote of
           None \<Rightarrow> Inl (''Failed to get quote for '' @ instrument)
         | Some quotes \<Rightarrow>
             (case quotes instrument of
                None \<Rightarrow> Inl (''No data available for '' @ instrument)
              | Some quote \<Rightarrow>
                  let quoteData = quote\<lparr>Tradingsymbol := symbol,
                                        VolumeTraded := QuoteVolume quote\<rparr>
                  in Inr (performComprehensiveAnalysis fmt1 now quoteData historicalData
                            timeframe riskTolerance capital maxRiskPercent)))"

text \<open>
  \<open>calculateOptimalPosition\<close>, the position sizing of the tool
  \<^verbatim>\<open>calculate_poverty_escape_position\<close>. The source returns a map of rendered strings;
  the record holds the numbers before they are rendered. The Kelly figure divides by
  values that can be zero and is an \<open>f64\<close>.
\<close>

record OptimalPosition =
  recommended_position_size :: int
  investment_amount :: real
  risk_amount :: real
  risk_percentage :: real
  target_1 :: real
  target_2 :: real
  target_3 :: real
  profit_1 :: real
  profit_2 :: real
  profit_3 :: real
  kelly_criterion_suggestion :: f64

definition baseRiskOf :: "string \<Rightarrow> real \<Rightarrow> real \<Rightarrow> bool \<Rightarrow> real" where
  "baseRiskOf strategy capital confidence povertyEscapeMode =
     (let baseRisk = (2.0::real);
          baseRisk = (if strategy = ''scalping'' then 0.5
                      else if strategy = ''intraday'' then 1.0
                      else if strategy = ''swing'' then 2.0
                      else if strategy = ''positional'' then 3.0
                      else baseRisk);
          baseRisk =
            (if povertyEscapeMode then
               let baseRisk = (if capital < 50000 then baseRisk * 2.0
                               else if capital < 100000 then baseRisk * 1.5
                               else baseRisk);
                   baseRisk = (if confidence > 80 then baseRisk * 1.2
                               else if confidence < 60 then baseRisk * 0.8
                               else baseRisk)
               in baseRisk
             else baseRisk)
      in if baseRisk > 5 then 5 else baseRisk)"

definition calculateOptimalPosition ::
  "real \<Rightarrow> real \<Rightarrow> real \<Rightarrow> string \<Rightarrow> real \<Rightarrow> bool \<Rightarrow> OptimalPosition" where
  "calculateOptimalPosition capital entryPrice stopLoss strategy confidence povertyEscapeMode =
     (let baseRisk = baseRiskOf strategy capital confidence povertyEscapeMode;
          riskAmount = capital * (baseRisk / 100);
          riskPerShare = \<bar>entryPrice - stopLoss\<bar>;
          positionSize = (if riskPerShare > 0 then go_int (riskAmount / riskPerShare) else 0);
          investmentAmount = of_int positionSize * entryPrice;
          capped = (investmentAmount > capital * 0.33);
          positionSize = (if capped then go_int ((capital * 0.33) / entryPrice)
                          else positionSize);
          investmentAmount = (if capped then of_int positionSize * entryPrice
                              else investmentAmount);
          riskAmount = (if capped then of_int positionSize * riskPerShare else riskAmount);
          target1 = entryPrice + (riskPerShare * 2);
          target2 = entryPrice + (riskPerShare * 3);
          target3 = entryPrice + (riskPerShare * 5);
          profit1 = of_int positionSize * (target1 - entryPrice);
          profit2 = of_int positionSize * (target2 - entryPrice);
          profit3 = of_int positionSize * (target3 - entryPrice);
          winRate = confidence / 100;
          avgWin = fdiv (Fin (target2 - entryPrice)) (Fin entryPrice);
          avgLoss = fdiv (Fin (entryPrice - stopLoss)) (Fin entryPrice);
          kellyPercent =
            (if fgt avgLoss (Fin 0) then
               let kellyPercent =
                     fdiv (fsub (fmul (Fin winRate) avgWin) (fmul (Fin (1 - winRate)) avgLoss))
                          avgWin;
                   kellyPercent = fmul kellyPercent (Fin 100);
                   kellyPercent = fmul kellyPercent (Fin 0.25)
               in kellyPercent
             else Fin 0)
      in \<lparr>recommended_position_size = positionSize, investment_amount = investmentAmount,
          risk_amount = riskAmount, risk_percentage = baseRisk,
          target_1 = target1, target_2 = target2, target_3 = target3,
          profit_1 = profit1, profit_2 = profit2, profit_3 = profit3,
          kelly_criterion_suggestion = kellyPercent\<rparr>)"

section \<open>Example inputs\<close>

text \<open>
  A series of 32 closes at 100 with two dips, 90 at index 12 and 95 at index 18, and a
  quote with a given last price and average price; they serve as concrete inputs below.
\<close>

definition dipSeries :: "real list" where
  "dipSeries = replicate 12 100 @ [90] @ replicate 5 100 @ [95] @ replicate 13 100"

definition quoteAt :: "real \<Rightarrow> QuoteData" where
  "quoteAt price =
     \<lparr>InstrumentToken = 1, LastPrice = price, AveragePrice = price, QuoteVolume = 0,
      NetChange = 0, OI = 0, LowerCircuitLimit = 0, UpperCircuitLimit = 0,
      Tradingsymbol = [], High = 0, Low = 0, Open = 0, VolumeTraded = 0\<rparr>"

section \<open>The parts of a risk-reward plan\<close>

text \<open>
  Which fields each part of \<open>calculateRiskReward\<close> writes. The loop over the resistance
  levels rewrites targets only, and the position sizing leaves stop-loss, targets and
  entry price as they are.
\<close>

lemma adjustTarget_StopLoss: "StopLoss (adjustTarget rr ir) = StopLoss rr"
  by (simp add: adjustTarget_def Let_def)

lemma foldl_adjustTarget_StopLoss: "StopLoss (foldl adjustTarget rr xs) = StopLoss rr"
  by (induction xs arbitrary: rr) (simp_all add: adjustTarget_StopLoss)

lemma adjustTargets_StopLoss: "StopLoss (adjustTargets res rr) = StopLoss rr"
  by (simp add: adjustTargets_def foldl_adjustTarget_StopLoss)

lemma adjustTarget_EntryPrice: "EntryPrice (adjustTarget rr ir) = EntryPrice rr"
  by (simp add: adjustTarget_def Let_def)

lemma foldl_adjustTarget_EntryPrice: "EntryPrice (foldl adjustTarget rr xs) = EntryPrice rr"
  by (induction xs arbitrary: rr) (simp_all add: adjustTarget_EntryPrice)

lemma adjustTargets_EntryPrice: "EntryPrice (adjustTargets res rr) = EntryPrice rr"
  by (simp add: adjustTargets_def foldl_adjustTarget_EntryPrice)

lemma chooseStopLoss_StopLoss:
  "StopLoss (chooseStopLoss p t rr) =
     (let base = (if Support t = [] then p * 0.98 else last (Support t) * 0.99)
      in if ATR t > 0 \<and> p - ATR t * 1.5 > base then p - ATR t * 1.5 else base)"
  by (simp add: chooseStopLoss_def Let_def last_conv_nth)

lemma chooseStopLoss_EntryPrice: "EntryPrice (chooseStopLoss p t rr) = EntryPrice rr"
  by (simp add: chooseStopLoss_def Let_def)

lemma rawTargets_sel:
  "StopLoss (rawTargets p rr) = StopLoss rr"
  "EntryPrice (rawTargets p rr) = EntryPrice rr"
  "Target1 (rawTargets p rr) = p + (p - StopLoss rr) * 2"
  "Target2 (rawTargets p rr) = p + (p - StopLoss rr) * 3"
  "Target3 (rawTargets p rr) = p + (p - StopLoss rr) * 5"
  by (simp_all add: rawTargets_def Let_def)

lemma sizePosition_sel:
  "StopLoss (sizePosition p c m rr) = StopLoss rr"
  "Target1 (sizePosition p c m rr) = Target1 rr"
  "Target2 (sizePosition p c m rr) = Target2 rr"
  "Target3 (sizePosition p c m rr) = Target3 rr"
  "EntryPrice (sizePosition p c m rr) = EntryPrice rr"
  by (simp_all add: sizePosition_def Let_def)

lemma calculateRiskReward_StopLoss:
  "StopLoss (calculateRiskReward p t c m) =
     (let base = (if Support t = [] then p * 0.98 else last (Support t) * 0.99)
      in if ATR t > 0 \<and> p - ATR t * 1.5 > base then p - ATR t * 1.5 else base)"
  unfolding calculateRiskReward_def Let_def
  by (simp only: sizePosition_sel adjustTargets_StopLoss rawTargets_sel
      chooseStopLoss_StopLoss Let_def)

lemma calculateRiskReward_EntryPrice: "EntryPrice (calculateRiskReward p t c m) = p"
  unfolding calculateRiskReward_def Let_def
  by (simp add: sizePosition_sel adjustTargets_EntryPrice rawTargets_sel
      chooseStopLoss_EntryPrice)

section \<open>Support levels and the stop-loss\<close>

text \<open>
  What \<open>findSupportResistance\<close> hands to the plan: both lists are sorted in ascending
  order and hold at most three levels. On the series with the two dips the support
  levels are 90 and 95.
\<close>

lemma findSupportResistance_sorted:
  "sorted (fst (findSupportResistance prices)) \<and> sorted (snd (findSupportResistance prices))"
  by (simp add: findSupportResistance_def Let_def)

lemma scanStep_length:
  "length (fst sr) \<le> 3 \<and> length (snd sr) \<le> 3 \<Longrightarrow>
     length (fst (scanStep prices sr i)) \<le> 3 \<and> length (snd (scanStep prices sr i)) \<le> 3"
  by (simp add: scanStep_def Let_def)

lemma foldl_scanStep_length:
  "length (fst sr) \<le> 3 \<and> length (snd sr) \<le> 3 \<Longrightarrow>
     length (fst (foldl (scanStep prices) sr is)) \<le> 3
     \<and> length (snd (foldl (scanStep prices) sr is)) \<le> 3"
proof (induction "is" arbitrary: sr)
  case Nil
  then show ?case by simp
next
  case (Cons i "is")
  show ?case using Cons.IH [OF scanStep_length [OF Cons.prems]] by simp
qed

lemma findSupportResistance_length:
  "length (fst (findSupportResistance prices)) \<le> 3
   \<and> length (snd (findSupportResistance prices)) \<le> 3"
  using foldl_scanStep_length [of "([], [])" prices "[10 ..< length prices - 10]"]
  by (simp add: findSupportResistance_def Let_def)

text \<open>
  The support list of every indicator value that \<open>CalculateTechnicalIndicators\<close> returns
  is therefore ascending, and so is the one that \<open>performComprehensiveAnalysis\<close> passes to
  \<open>calculateRiskReward\<close>.
\<close>

lemma CalculateTechnicalIndicators_Support:
  "Support (CalculateTechnicalIndicators prices volumes) =
     (if length prices < 200 then [] else fst (findSupportResistance prices))"
  by (simp add: CalculateTechnicalIndicators_def Let_def zeroTechnicalIndicators_def)

lemma CalculateTechnicalIndicators_Support_sorted:
  "sorted (Support (CalculateTechnicalIndicators prices volumes))"
  by (simp add: CalculateTechnicalIndicators_Support findSupportResistance_sorted)

lemma performComprehensiveAnalysis_plan:
  "\<exists>t. RiskReward (performComprehensiveAnalysis fmt1 now q hist tf rt capital mrp)
        = calculateRiskReward (LastPrice q) t capital mrp \<and> sorted (Support t)"
proof -
  let ?t0 = "if length (map Close hist) > 0
             then CalculateTechnicalIndicators (map Close hist)
                    (map (\<lambda>candle. real_of_int (Volume candle)) hist)
             else zeroTechnicalIndicators"
  let ?t = "?t0\<lparr>VWAP := AveragePrice q\<rparr>"
  have "RiskReward (performComprehensiveAnalysis fmt1 now q hist tf rt capital mrp)
        = calculateRiskReward (LastPrice q) ?t capital mrp"
    unfolding performComprehensiveAnalysis_def Let_def
    by (simp add: zeroMarketAnalysis_def)
  moreover have "sorted (Support ?t)"
    by (simp add: CalculateTechnicalIndicators_Support_sorted zeroTechnicalIndicators_def)
  ultimately show ?thesis by blast
qed

lemma findSupportResistance_dipSeries:
  "findSupportResistance dipSeries = ([90, 95], [100, 100, 100])"
  by (simp add: findSupportResistance_def Let_def dipSeries_def scanStep_def
      localExtremum_def upt_rec numeral_eq_Suc nth_append)

lemma sorted_last_Max:
  fixes xs :: "real list"
  shows "sorted xs \<Longrightarrow> xs \<noteq> [] \<Longrightarrow> last xs = Max (set xs)"
  by (induction xs) (auto simp: max_def intro: antisym)

text \<open>
  Claim C1, as the code has it. The support list is ascending, and the source reads its
  last element: with at least one support level the support-based stop is 0.99 times the
  highest detected support level (not the lowest); with no support level it is 0.98 times
  the entry price; and when ATR is positive the stop-loss is the higher of that stop and
  the ATR stop, entry minus 1.5 times ATR.
\<close>

theorem stop_loss_highest_support_or_atr:
  assumes "sorted (Support t)"
  shows "StopLoss (calculateRiskReward p t c m) =
     (let base = (if Support t = [] then p * 0.98 else Max (set (Support t)) * 0.99)
      in if ATR t > 0 then max base (p - ATR t * 1.5) else base)"
  using sorted_last_Max[OF assms]
  by (auto simp: calculateRiskReward_StopLoss Let_def max_def)

theorem stop_loss_highest_support_or_atr_witness:
  "StopLoss (calculateRiskReward 100
      (zeroTechnicalIndicators\<lparr>Support := [90, 95], ATR := 2\<rparr>) 50000 2) = 97"
  using stop_loss_highest_support_or_atr
    [of "zeroTechnicalIndicators\<lparr>Support := [90, 95], ATR := 2\<rparr>" 100 50000 2]
  by (simp add: zeroTechnicalIndicators_def)

text \<open>
  The claim as stated fails: with the support levels 90 and 95, the entry 100 and no ATR,
  the stop-loss is 0.99 times 95, not 0.99 times the lowest level 90.
\<close>

theorem stop_loss_lowest_support_counterexample:
  "sorted [90, 95::real] \<and>
   StopLoss (calculateRiskReward 100
      (zeroTechnicalIndicators\<lparr>Support := [90, 95]\<rparr>) 50000 2) = 94.05 \<and>
   StopLoss (calculateRiskReward 100
      (zeroTechnicalIndicators\<lparr>Support := [90, 95]\<rparr>) 50000 2) \<noteq> 0.99 * Min (set [90, 95])"
  by (simp add: calculateRiskReward_StopLoss zeroTechnicalIndicators_def)




section \<open>Targets\<close>














section \<open>Position size\<close>

text \<open>
  Claim C2, at the input of the spec's own scenario: entry 100, no support level and no
  ATR (so the stop-loss is 98), capital 50000 and a maximal risk of 2 percent. The plan of
  \<open>calculateRiskReward\<close> holds 500 units, worth the whole capital and more than 33 percent
  of it; nothing in \<open>calculateRiskReward\<close> shrinks the position.
\<close>

theorem risk_reward_position_exceeds_cap:
  "StopLoss (calculateRiskReward 100 zeroTechnicalIndicators 50000 2) = 98
   \<and> PositionSize (calculateRiskReward 100 zeroTechnicalIndicators 50000 2) = 500
   \<and> RiskAmount (calculateRiskReward 100 zeroTechnicalIndicators 50000 2) = 2
   \<and> MaxLoss (calculateRiskReward 100 zeroTechnicalIndicators 50000 2) = 1000
   \<and> of_int (PositionSize (calculateRiskReward 100 zeroTechnicalIndicators 50000 2))
       * EntryPrice (calculateRiskReward 100 zeroTechnicalIndicators 50000 2)
       > 0.33 * (50000::real)"
  by (simp add: calculateRiskReward_def chooseStopLoss_def rawTargets_def sizePosition_def
      Let_def zeroTechnicalIndicators_def adjustTargets_def
      zeroRiskRewardAnalysis_def go_int_def)

text \<open>
  The sibling \<open>calculateOptimalPosition\<close> does apply the cap ("Max 33% in single
  position"): at the same numbers it returns 165 units and the risk amount 330, and for
  every positive capital and positive entry price its position is non-negative and worth
  at most 33 percent of the capital. (The cap divides by the entry price, which is
  positive there.)
\<close>

lemma calculateOptimalPosition_scenario:
  "recommended_position_size (calculateOptimalPosition 50000 100 98 ''swing'' 70 False) = 165
   \<and> risk_amount (calculateOptimalPosition 50000 100 98 ''swing'' 70 False) = 330"
  by (simp add: calculateOptimalPosition_def baseRiskOf_def Let_def go_int_def)

lemma baseRiskOf_pos: "0 < baseRiskOf strategy capital confidence pem"
  by (simp add: baseRiskOf_def Let_def)

lemma go_int_nonneg: "0 \<le> x \<Longrightarrow> 0 \<le> go_int x \<and> of_int (go_int x) \<le> x"
  by (simp add: go_int_def)

lemma calculateOptimalPosition_size:
  "recommended_position_size
     (calculateOptimalPosition capital entryPrice stopLoss strategy confidence pem) =
   (let raw = (if \<bar>entryPrice - stopLoss\<bar> > 0
               then go_int (capital * (baseRiskOf strategy capital confidence pem / 100)
                            / \<bar>entryPrice - stopLoss\<bar>)
               else 0)
    in if of_int raw * entryPrice > capital * 0.33
       then go_int ((capital * 0.33) / entryPrice) else raw)"
  by (simp add: calculateOptimalPosition_def Let_def)

lemma calculateOptimalPosition_cap:
  assumes "0 < capital" and "0 < entryPrice"
  shows "0 \<le> recommended_position_size
           (calculateOptimalPosition capital entryPrice stopLoss strategy confidence pem)
       \<and> of_int (recommended_position_size
           (calculateOptimalPosition capital entryPrice stopLoss strategy confidence pem))
           * entryPrice \<le> capital * 0.33"
proof -
  let ?b = "baseRiskOf strategy capital confidence pem"
  let ?rps = "\<bar>entryPrice - stopLoss\<bar>"
  let ?raw = "(if ?rps > 0 then go_int (capital * (?b / 100) / ?rps) else 0)"
  have b: "0 < ?b" by (rule baseRiskOf_pos)
  have "0 \<le> capital * (?b / 100) / ?rps" using assms b by simp
  then have raw0: "0 \<le> ?raw" using go_int_nonneg by simp
  have x0: "0 \<le> (capital * 0.33) / entryPrice" using assms by simp
  have c0: "0 \<le> go_int ((capital * 0.33) / entryPrice)"
    and c1: "of_int (go_int ((capital * 0.33) / entryPrice)) \<le> (capital * 0.33) / entryPrice"
    using go_int_nonneg [OF x0] by simp_all
  have c2: "of_int (go_int ((capital * 0.33) / entryPrice)) * entryPrice \<le> capital * 0.33"
    using c1 assms(2) by (simp add: pos_le_divide_eq)
  show ?thesis
  proof (cases "of_int ?raw * entryPrice > capital * 0.33")
    case True
    then show ?thesis
      unfolding calculateOptimalPosition_size Let_def using c0 c2 by (simp only: if_True)
  next
    case False
    then show ?thesis
      unfolding calculateOptimalPosition_size Let_def using raw0 by (simp only: if_False) simp
  qed
qed

text \<open>
  What does hold for the plan of \<open>calculateRiskReward\<close>: the position size is
  \<open>floor (capital * pct / risk per unit)\<close> when the risk per unit is positive and 0
  otherwise, so it is never negative for a capital and a percentage that are not negative.
\<close>

lemma sizePosition_PositionSize:
  "PositionSize (sizePosition p c m rr) =
     (if p - StopLoss rr > 0 then go_int (c * (m / 100) / (p - StopLoss rr)) else 0)"
  by (simp add: sizePosition_def Let_def)

lemma calculateRiskReward_PositionSize:
  "PositionSize (calculateRiskReward p t c m) =
     (if p - StopLoss (calculateRiskReward p t c m) > 0
      then go_int (c * (m / 100) / (p - StopLoss (calculateRiskReward p t c m))) else 0)"
  unfolding calculateRiskReward_def Let_def
  by (simp only: sizePosition_PositionSize sizePosition_sel)

lemma calculateRiskReward_PositionSize_nonneg:
  "0 \<le> c \<Longrightarrow> 0 \<le> m \<Longrightarrow> 0 \<le> PositionSize (calculateRiskReward p t c m)"
proof -
  assume c: "0 \<le> c" and m: "0 \<le> m"
  let ?r = "p - StopLoss (calculateRiskReward p t c m)"
  show ?thesis
  proof (cases "?r > 0")
    case True
    then have "0 \<le> c * (m / 100) / ?r" using c m by simp
    then show ?thesis
      using go_int_nonneg True calculateRiskReward_PositionSize [of p t c m] by simp
  next
    case False
    then show ?thesis using calculateRiskReward_PositionSize [of p t c m] by simp
  qed
qed

section \<open>Short price series\<close>

text \<open>
  Claim C4, as the code has it. For a price series of fewer than 200 points (and any
  volume series) the result is Go's zero value of the struct: every number is 0, every
  flag false, every label the empty string and both level lists are empty. The RSI is 0,
  not 50, and the trend label is empty, not "neutral".
\<close>

theorem short_series_zero_value:
  "length prices < 200 \<Longrightarrow>
     CalculateTechnicalIndicators prices volumes = zeroTechnicalIndicators
     \<and> RSI (CalculateTechnicalIndicators prices volumes) = 0
     \<and> Trend (CalculateTechnicalIndicators prices volumes) = []"
  by (simp add: CalculateTechnicalIndicators_def zeroTechnicalIndicators_def)

theorem short_series_zero_value_witness:
  "CalculateTechnicalIndicators [100, 101, 102] [10, 10, 10] = zeroTechnicalIndicators
   \<and> RSI (CalculateTechnicalIndicators [100, 101, 102] [10, 10, 10]) = 0
   \<and> Trend (CalculateTechnicalIndicators [100, 101, 102] [10, 10, 10]) = []"
  by (rule short_series_zero_value) simp

text \<open>The claim as stated fails on a series of three closes.\<close>

theorem short_series_neutral_counterexample:
  "length [100, 101, 102::real] < 200
   \<and> RSI (CalculateTechnicalIndicators [100, 101, 102] [10, 10, 10]) \<noteq> 50
   \<and> Trend (CalculateTechnicalIndicators [100, 101, 102] [10, 10, 10]) \<noteq> ''neutral''"
  by (simp add: CalculateTechnicalIndicators_def zeroTechnicalIndicators_def)

section \<open>Stochastic K\<close>

text \<open>
  The two loops of \<open>calculateStochastic\<close> compute the least and the greatest close of the
  window, so \<open>%K\<close> is 100 times (last close - least) / (greatest - least), the division
  being the unguarded one.
\<close>

lemma foldl_lowest:
  fixes a :: real
  shows "foldl (\<lambda>lowest p. if p < lowest then p else lowest) a xs = Min (insert a (set xs))"
proof (induction xs arbitrary: a)
  case Nil
  then show ?case by simp
next
  case (Cons x xs)
  have "Min (insert (if x < a then x else a) (set xs)) = Min (insert a (insert x (set xs)))"
    by (cases "set xs = {}") (auto simp: min_def Min_insert2 Min.insert_remove)
  then show ?case using Cons.IH by simp
qed

lemma foldl_highest:
  fixes a :: real
  shows "foldl (\<lambda>highest p. if p > highest then p else highest) a xs = Max (insert a (set xs))"
proof (induction xs arbitrary: a)
  case Nil
  then show ?case by simp
next
  case (Cons x xs)
  have "Max (insert (if x > a then x else a) (set xs)) = Max (insert a (insert x (set xs)))"
    by (cases "set xs = {}") (auto simp: max_def Max.insert_remove)
  then show ?case using Cons.IH by simp
qed

lemma percent_range:
  fixes r :: real
  shows "0 \<le> r \<Longrightarrow> r \<le> 1 \<Longrightarrow> 0 \<le> 100 * r \<and> 100 * r \<le> 100"
  by simp

lemma calculateStochastic_K:
  assumes "0 < period" and "period \<le> length prices"
  shows "StochK (calculateStochastic prices period kSmooth dSmooth) =
           fmul (Fin 100)
             (fdiv (Fin (last prices - Min (set (drop (length prices - period) prices))))
                   (Fin (Max (set (drop (length prices - period) prices))
                         - Min (set (drop (length prices - period) prices)))))"
proof -
  let ?recent = "drop (length prices - period) prices"
  have ne: "?recent \<noteq> []" using assms by simp
  then have "?recent ! 0 \<in> set ?recent"
    by (intro nth_mem) simp
  then have ins: "insert (?recent ! 0) (set ?recent) = set ?recent" by auto
  have "prices \<noteq> []" using assms by auto
  then have cur: "prices ! (length prices - 1) = last prices"
    by (simp add: last_conv_nth)
  have guard: "\<not> length prices < period" using assms by simp
  show ?thesis
    unfolding calculateStochastic_def Let_def
    by (simp only: guard if_False foldl_lowest foldl_highest ins cur
        StochasticValues.select_convs)
qed

lemma calculateStochastic_flags:
  "period \<le> length prices \<Longrightarrow>
     Oversold (calculateStochastic prices period kSmooth dSmooth)
       = flt (StochK (calculateStochastic prices period kSmooth dSmooth)) (Fin 20)
     \<and> Overbought (calculateStochastic prices period kSmooth dSmooth)
       = fgt (StochK (calculateStochastic prices period kSmooth dSmooth)) (Fin 80)
     \<and> StochD (calculateStochastic prices period kSmooth dSmooth)
       = StochK (calculateStochastic prices period kSmooth dSmooth)"
  by (simp add: calculateStochastic_def Let_def)

text \<open>A window whose closes are all equal gives \<open>0 / 0\<close>, that is NaN.\<close>

lemma calculateStochastic_flat:
  assumes "0 < period" and "period \<le> length prices"
    and "Min (set (drop (length prices - period) prices))
         = Max (set (drop (length prices - period) prices))"
  shows "StochK (calculateStochastic prices period kSmooth dSmooth) = NaN"
proof -
  let ?recent = "drop (length prices - period) prices"
  have ne: "?recent \<noteq> []" using assms by simp
  have "last prices = last ?recent" using ne by simp
  then have mem: "last prices \<in> set ?recent" using last_in_set [OF ne] by simp
  have "Min (set ?recent) \<le> last prices" "last prices \<le> Max (set ?recent)"
    using mem by simp_all
  then have "last prices = Min (set ?recent)" using assms(3) by simp
  then show ?thesis
    using calculateStochastic_K [OF assms(1,2), of kSmooth dSmooth] assms(3) by simp
qed

text \<open>On every other window \<open>%K\<close> is a number between 0 and 100.\<close>

lemma calculateStochastic_in_range:
  assumes "0 < period" and "period \<le> length prices"
    and "Min (set (drop (length prices - period) prices))
         \<noteq> Max (set (drop (length prices - period) prices))"
  shows "\<exists>k. StochK (calculateStochastic prices period kSmooth dSmooth) = Fin k
             \<and> 0 \<le> k \<and> k \<le> 100"
proof -
  let ?recent = "drop (length prices - period) prices"
  let ?lo = "Min (set ?recent)" and ?hi = "Max (set ?recent)"
  have ne: "?recent \<noteq> []" using assms by simp
  have "last prices = last ?recent" using ne by simp
  then have mem: "last prices \<in> set ?recent" using last_in_set [OF ne] by simp
  have lo: "?lo \<le> last prices" and hi: "last prices \<le> ?hi"
    using mem by simp_all
  have "?lo \<le> ?hi" using lo hi by linarith
  then have pos: "0 < ?hi - ?lo" using assms(3) by simp
  let ?k = "100 * ((last prices - ?lo) / (?hi - ?lo))"
  have k: "StochK (calculateStochastic prices period kSmooth dSmooth) = Fin ?k"
    using calculateStochastic_K [OF assms(1,2), of kSmooth dSmooth] pos by simp
  have r0: "0 \<le> (last prices - ?lo) / (?hi - ?lo)" using lo pos by simp
  have r1: "(last prices - ?lo) / (?hi - ?lo) \<le> 1" using hi pos by simp
  have "0 \<le> ?k \<and> ?k \<le> 100" by (rule percent_range [OF r0 r1])
  then show ?thesis using k by blast
qed

text \<open>
  Claim C5, at a series of 14 closes that are all 100: \<open>%K\<close> is NaN, not a number in
  the range from 0 to 100, and neither flag is set.
\<close>

theorem stochastic_flat_window_is_NaN:
  "length (replicate 14 (100::real)) \<ge> 14
   \<and> StochK (calculateStochastic (replicate 14 100) 14 3 3) = NaN
   \<and> \<not> Oversold (calculateStochastic (replicate 14 100) 14 3 3)
   \<and> \<not> Overbought (calculateStochastic (replicate 14 100) 14 3 3)"
proof -
  have k: "StochK (calculateStochastic (replicate 14 100) 14 3 3) = NaN"
    by (rule calculateStochastic_flat) simp_all
  have "14 \<le> length (replicate 14 (100::real))" by simp
  from calculateStochastic_flags [OF this, of 3 3] k show ?thesis
    by (simp add: fgt_def)
qed

section \<open>The MACD signal line\<close>

text \<open>
  The signal is \<open>calculateEMA\<close> of a list of one element with period 9; the guard of
  \<open>calculateEMA\<close> for a list shorter than the period returns 0.
\<close>

lemma calculateMACD_Signal_zero:
  "length prices \<ge> 26 \<Longrightarrow> Signal (calculateMACD prices) = 0"
  by (simp add: calculateMACD_def Let_def calculateEMA_def)

text \<open>
  Claim C6, at a series of 26 closes: 25 times 0 and then 27. The MACD line is 81/26 and
  the signal is 0, not the MACD line.
\<close>

theorem macd_signal_is_zero_not_macd:
  "length (replicate 25 (0::real) @ [27]) \<ge> 26
   \<and> MACDLine (calculateMACD (replicate 25 0 @ [27])) = 81 / 26
   \<and> Signal (calculateMACD (replicate 25 0 @ [27])) = 0
   \<and> Signal (calculateMACD (replicate 25 0 @ [27]))
       \<noteq> MACDLine (calculateMACD (replicate 25 0 @ [27]))"
  by (simp add: calculateMACD_def Let_def calculateEMA_def calculateSMA_def numeral_eq_Suc)

section \<open>The decision table of the signal generator\<close>

lemma decideAction_table:
  "(Action (decideAction fmt1 a initialSignal), Strength (decideAction fmt1 a initialSignal)) =
     (if BullishScore (Technical a) > 70 \<and> Confidence a > 75 then (''BUY'', ''strong'')
      else if BullishScore (Technical a) > 60 \<and> Confidence a > 65 then (''BUY'', ''moderate'')
      else if BearishScore (Technical a) > 70 \<and> Confidence a > 75 then (''SELL'', ''strong'')
      else (''HOLD'', ''weak''))"
  by (simp add: decideAction_def initialSignal_def zeroTradeSignal_def Let_def)

text \<open>The statements after the decision leave the action and the strength as they are.\<close>

lemma GenerateTradeSignal_Action:
  "Action (GenerateTradeSignal fmt1 a rt) = Action (decideAction fmt1 a initialSignal)"
  by (simp add: GenerateTradeSignal_def Let_def)

lemma GenerateTradeSignal_Strength:
  "Strength (GenerateTradeSignal fmt1 a rt) = Strength (decideAction fmt1 a initialSignal)"
  by (simp add: GenerateTradeSignal_def Let_def)

text \<open>
  Claim C8. The action and the strength of the generated signal are the entry of the
  decision table for the bullish score, the bearish score and the confidence of the
  analysis: BUY/strong when bullish > 70 and confidence > 75; otherwise BUY/moderate when
  bullish > 60 and confidence > 65; otherwise SELL/strong when bearish > 70 and
  confidence > 75; otherwise HOLD/weak.
\<close>

theorem trade_signal_decision_table:
  "(Action (GenerateTradeSignal fmt1 a rt), Strength (GenerateTradeSignal fmt1 a rt)) =
     (if BullishScore (Technical a) > 70 \<and> Confidence a > 75 then (''BUY'', ''strong'')
      else if BullishScore (Technical a) > 60 \<and> Confidence a > 65 then (''BUY'', ''moderate'')
      else if BearishScore (Technical a) > 70 \<and> Confidence a > 75 then (''SELL'', ''strong'')
      else (''HOLD'', ''weak''))"
  by (simp only: GenerateTradeSignal_Action GenerateTradeSignal_Strength decideAction_table)

text \<open>
  In \<open>performComprehensiveAnalysis\<close> the signal is generated before the confidence is
  computed, so the table is read there at the confidence 0 of the fresh analysis: the
  signal that the pipeline stores is HOLD/weak for every input.
\<close>

lemma performComprehensiveAnalysis_signal:
  "\<exists>a. TradeSignal (performComprehensiveAnalysis fmt1 now q hist tf rt capital mrp)
        = GenerateTradeSignal fmt1 a rt \<and> Confidence a = 0"
  unfolding performComprehensiveAnalysis_def Let_def
  apply (rule exI, rule conjI)
   apply (simp split del: if_split)
  apply (simp add: zeroMarketAnalysis_def)
  done

lemma pipeline_signal_always_hold:
  "Action (TradeSignal (performComprehensiveAnalysis fmt1 now q hist tf rt capital mrp))
     = ''HOLD''
   \<and> Strength (TradeSignal (performComprehensiveAnalysis fmt1 now q hist tf rt capital mrp))
     = ''weak''"
proof -
  obtain a where a: "TradeSignal (performComprehensiveAnalysis fmt1 now q hist tf rt capital mrp)
        = GenerateTradeSignal fmt1 a rt" and c: "Confidence a = 0"
    using performComprehensiveAnalysis_signal by blast
  have "(Action (GenerateTradeSignal fmt1 a rt), Strength (GenerateTradeSignal fmt1 a rt))
          = (''HOLD'', ''weak'')"
    by (simp only: GenerateTradeSignal_Action GenerateTradeSignal_Strength decideAction_table c)
       simp
  then show ?thesis using a by simp
qed

section \<open>Priority of a signal\<close>

text \<open>
  Claim C10. The priority before the cap lies between 3 and 10, so the cap changes
  nothing and the priority of every signal, also of every generated signal, lies in
  that range: the values 1 and 2 are never observed.
\<close>

theorem priority_between_3_and_10:
  "3 \<le> rawPriority s a \<and> rawPriority s a \<le> 10
   \<and> calculatePriority s a = rawPriority s a
   \<and> 3 \<le> Priority (GenerateTradeSignal fmt1 a riskTolerance)
   \<and> Priority (GenerateTradeSignal fmt1 a riskTolerance) \<le> 10"
proof -
  have raw: "3 \<le> rawPriority s' a \<and> rawPriority s' a \<le> 10" for s'
    by (simp add: rawPriority_def Let_def)
  have cap: "calculatePriority s' a = rawPriority s' a" for s'
    using raw [of s'] by (simp add: calculatePriority_def Let_def)
  have "\<exists>s'. Priority (GenerateTradeSignal fmt1 a riskTolerance) = calculatePriority s' a"
    unfolding GenerateTradeSignal_def Let_def
    by (rule exI, simp split del: if_split)
  then obtain s' where "Priority (GenerateTradeSignal fmt1 a riskTolerance) = rawPriority s' a"
    using cap by auto
  then show ?thesis using raw [of s] raw [of s'] cap [of s] by simp
qed

section \<open>Requests with a negative capital or a non-positive price\<close>

lemma performComprehensiveAnalysis_RiskReward:
  "\<exists>t. RiskReward (performComprehensiveAnalysis fmt1 now q hist tf rt capital mrp)
        = calculateRiskReward (LastPrice q) t capital mrp"
  unfolding performComprehensiveAnalysis_def Let_def
  by (rule exI, simp split del: if_split)

text \<open>The session body fails only when the quote request fails or has no entry.\<close>

lemma analyzeSession_Inl_iff:
  "(\<exists>e. analyzeSession fmt1 now gq hist symbol exchange tf rt capital mrp = Inl e)
     = (gq = None \<or> (\<exists>quotes. gq = Some quotes \<and> quotes (exchange @ '':'' @ symbol) = None))"
  by (auto simp: analyzeSession_def Let_def split: option.splits)

text \<open>
  Claim C9, as the code has it. Neither the capital nor the entry price is validated:
  whatever their values, once the quote of the instrument is available the session body
  returns an analysis, whose risk-reward plan has the last price of the quote as its
  entry price.
\<close>

theorem analysis_emitted_without_validation:
  "gq = Some quotes \<Longrightarrow> quotes (exchange @ '':'' @ symbol) = Some q \<Longrightarrow>
     \<exists>a. analyzeSession fmt1 now gq hist symbol exchange tf rt capital mrp = Inr a
         \<and> EntryPrice (RiskReward a) = LastPrice q"
proof -
  assume gq: "gq = Some quotes" and q: "quotes (exchange @ '':'' @ symbol) = Some q"
  let ?qd = "q\<lparr>Tradingsymbol := symbol, VolumeTraded := QuoteVolume q\<rparr>"
  let ?a = "performComprehensiveAnalysis fmt1 now ?qd hist tf rt capital mrp"
  have res: "analyzeSession fmt1 now gq hist symbol exchange tf rt capital mrp = Inr ?a"
    using gq q by (simp add: analyzeSession_def Let_def)
  obtain t where "RiskReward ?a = calculateRiskReward (LastPrice ?qd) t capital mrp"
    using performComprehensiveAnalysis_RiskReward by blast
  then have "EntryPrice (RiskReward ?a) = LastPrice q"
    by (simp add: calculateRiskReward_EntryPrice)
  then show ?thesis using res by blast
qed

theorem analysis_emitted_without_validation_witness:
  "\<exists>a. analyzeSession (\<lambda>x. []) 0 (Some [''NSE:INFY'' \<mapsto> quoteAt 100]) []
          ''INFY'' ''NSE'' ''swing'' ''moderate'' 50000 2 = Inr a
       \<and> EntryPrice (RiskReward a) = 100"
  using analysis_emitted_without_validation
    [of "Some [''NSE:INFY'' \<mapsto> quoteAt 100]" "[''NSE:INFY'' \<mapsto> quoteAt 100]"
        "''NSE''" "''INFY''" "quoteAt 100" "\<lambda>x. []" 0 "[]" "''swing''" "''moderate''" 50000 2]
  by (simp add: quoteAt_def)

text \<open>
  Two plans that are emitted: with the capital -1000 at the price 100, a position of -10
  units; at the price 0, a plan that is zero throughout.
\<close>

lemma plan_negative_capital:
  "calculateRiskReward 100 (zeroTechnicalIndicators\<lparr>VWAP := 100\<rparr>) (- 1000) 2 =
   \<lparr>EntryPrice = 100, StopLoss = 98, Target1 = 104, Target2 = 106, Target3 = 110,
    RiskAmount = 2, RewardAmount = 4, RiskRewardRatio = 2, PositionSize = - 10,
    MaxLoss = - 20, MaxProfit = - 100\<rparr>"
  by (simp add: calculateRiskReward_def chooseStopLoss_def rawTargets_def sizePosition_def
      Let_def zeroTechnicalIndicators_def adjustTargets_def
      zeroRiskRewardAnalysis_def go_int_def)

lemma plan_zero_price:
  "calculateRiskReward 0 (zeroTechnicalIndicators\<lparr>VWAP := 0\<rparr>) 50000 2 =
   \<lparr>EntryPrice = 0, StopLoss = 0, Target1 = 0, Target2 = 0, Target3 = 0,
    RiskAmount = 0, RewardAmount = 0, RiskRewardRatio = 0, PositionSize = 0,
    MaxLoss = 0, MaxProfit = 0\<rparr>"
  by (simp add: calculateRiskReward_def chooseStopLoss_def rawTargets_def sizePosition_def
      Let_def zeroTechnicalIndicators_def adjustTargets_def
      zeroRiskRewardAnalysis_def go_int_def)

text \<open>
  The claim as stated fails: a request with the capital -1000, and a quote whose last
  price is 0, are both answered with an analysis that holds a risk-reward plan and a
  trade signal.
\<close>

theorem invalid_request_not_rejected_counterexample:
  "(- 1000 :: real) < 0
   \<and> (\<exists>a. analyzeSession (\<lambda>x. []) 0 (Some [''NSE:INFY'' \<mapsto> quoteAt 100]) []
          ''INFY'' ''NSE'' ''swing'' ''moderate'' (- 1000) 2 = Inr a
        \<and> PositionSize (RiskReward a) = - 10 \<and> Action (TradeSignal a) = ''HOLD'')
   \<and> LastPrice (quoteAt 0) \<le> 0
   \<and> (\<exists>a. analyzeSession (\<lambda>x. []) 0 (Some [''NSE:INFY'' \<mapsto> quoteAt 0]) []
          ''INFY'' ''NSE'' ''swing'' ''moderate'' 50000 2 = Inr a
        \<and> EntryPrice (RiskReward a) = 0 \<and> Action (TradeSignal a) = ''HOLD'')"
proof -
  have a: "\<exists>a. analyzeSession (\<lambda>x. []) 0 (Some [''NSE:INFY'' \<mapsto> quoteAt 100]) []
          ''INFY'' ''NSE'' ''swing'' ''moderate'' (- 1000) 2 = Inr a
        \<and> PositionSize (RiskReward a) = - 10 \<and> Action (TradeSignal a) = ''HOLD''"
    apply (simp add: analyzeSession_def Let_def quoteAt_def performComprehensiveAnalysis_def
        zeroMarketAnalysis_def plan_negative_capital)
    apply (simp add: GenerateTradeSignal_def Let_def decideAction_def initialSignal_def
        zeroTradeSignal_def zeroTechnicalIndicators_def)
    done
  have b: "\<exists>a. analyzeSession (\<lambda>x. []) 0 (Some [''NSE:INFY'' \<mapsto> quoteAt 0]) []
          ''INFY'' ''NSE'' ''swing'' ''moderate'' 50000 2 = Inr a
        \<and> EntryPrice (RiskReward a) = 0 \<and> Action (TradeSignal a) = ''HOLD''"
    apply (simp add: analyzeSession_def Let_def quoteAt_def performComprehensiveAnalysis_def
        zeroMarketAnalysis_def plan_zero_price)
    apply (simp add: GenerateTradeSignal_def Let_def decideAction_def initialSignal_def
        zeroTradeSignal_def zeroTechnicalIndicators_def)
    done
  show ?thesis using a b by (simp add: quoteAt_def)
qed

end
